theory Spec2Isabelle
  imports Main "HOL-Library.Sublist"
begin

section \<open>NoteProhibitService: the prohibited-note formula evaluator\<close>

text \<open>
  A shallow embedding of \<^verbatim>\<open>packages/backend/src/core/NoteProhibitService.ts\<close>.
  A thrown exception is a value \<open>Inl e\<close> of the result type \<open>error + 'a\<close>; a
  \<^verbatim>\<open>try { ... } catch\<close> is a case distinction on that result. JavaScript numbers that
  count list elements, bytes or colour components are modelled as \<open>int\<close>.
\<close>

subsection \<open>Data model\<close>

datatype error = Thrown string

text \<open>\<^verbatim>\<open>MiNote\<close>: only its presence is inspected.\<close>

record MiNote =
  note_id :: string

text \<open>\<^verbatim>\<open>MiDriveFile\<close>: the fields the evaluator reads (\<^verbatim>\<open>size\<close>, \<^verbatim>\<open>md5\<close>, \<^verbatim>\<open>type\<close>,
  \<^verbatim>\<open>blurhash\<close>).\<close>

record MiDriveFile =
  size_f :: int
  md5 :: string
  type_f :: string
  blurhash :: "string option"

text \<open>\<^verbatim>\<open>MiUser\<close>: the fields the evaluator reads.\<close>

record MiUser =
  username :: string
  name :: "string option"

record MiRole =
  role_id :: string

record mention =
  mention_username :: string
  mention_host :: "string option"

record InspectionSubject =
  userId :: string
  text_f :: "string option"
  reply :: "MiNote option"
  renote :: "MiNote option"
  files :: "MiDriveFile list option"
  mentions :: "mention list"
  hashtags :: "string list"

text \<open>
  \<^verbatim>\<open>ProhibitedNoteFormulaValue\<close>: a tagged union, one constructor for each \<^verbatim>\<open>case\<close>
  label of the \<^verbatim>\<open>switch\<close> in \<^verbatim>\<open>evalcond\<close>, with the parameters that case reads from
  the node. \<open>Unset\<close> is the node whose \<^verbatim>\<open>type\<close> is \<^verbatim>\<open>null\<close>; \<open>Unrecognized t\<close> is a
  node whose \<^verbatim>\<open>type\<close> is a string \<open>t\<close> outside the catalog of \<^verbatim>\<open>case\<close> labels.
\<close>

datatype formula =
    FTrue
  | FFalse
  | And "formula list"
  | Or "formula list"
  | Not formula
  | UsernameMatchOf string
  | NameMatchOf string
  | NameIsDefault
  | RoleAssignedOf string
  | HasText
  | TextMatchOf string
  | HasMentions
  | MentionCountIs int
  | MentionCountMoreThanOrEq int
  | MentionCountLessThan int
  | IsReply
  | IsQuoted
  | HasFiles
  | FileCountIs int
  | FileCountMoreThanOrEq int
  | FileCountLessThan int
  | FileTotalSizeMoreThanOrEq int
  | FileTotalSizeLessThan int
  | HasFileSizeMoreThanOrEq int
  | HasFileSizeLessThan int
  | HasFileMD5Is string
  | HasBrowserInsafe
  | HasPictures
  | HasLikelyBlurhash string int
  | HasHashtags
  | HashtagCountIs int
  | HashtagCountMoreThanOrEq int
  | HashtagCountLessThan int
  | HasHashtagMatchOf string
  | Unset
  | Unrecognized string

text \<open>The \<^verbatim>\<open>case\<close> labels of the \<^verbatim>\<open>switch\<close>, in source order.\<close>

definition recognized_kinds :: "string list" where
  "recognized_kinds =
    [''true'', ''false'', ''and'', ''or'', ''not'', ''usernameMatchOf'', ''nameMatchOf'',
     ''nameIsDefault'', ''roleAssignedOf'', ''hasText'', ''textMatchOf'', ''hasMentions'',
     ''mentionCountIs'', ''mentionCountMoreThanOrEq'', ''mentionCountLessThan'', ''isReply'',
     ''isQuoted'', ''hasFiles'', ''fileCountIs'', ''fileCountMoreThanOrEq'',
     ''fileCountLessThan'', ''fileTotalSizeMoreThanOrEq'', ''fileTotalSizeLessThan'',
     ''hasFileSizeMoreThanOrEq'', ''hasFileSizeLessThan'', ''hasFileMD5Is'',
     ''hasBrowserInsafe'', ''hasPictures'', ''hasLikelyBlurhash'', ''hasHashtags'',
     ''hashtagCountIs'', ''hashtagCountMoreThanOrEq'', ''hashtagCountLessThan'',
     ''hasHashtagMatchOf'']"

text \<open>The node's \<^verbatim>\<open>type\<close> field; \<open>None\<close> is \<^verbatim>\<open>null\<close>.\<close>

fun formula_type :: "formula \<Rightarrow> string option" where
  "formula_type FTrue = Some ''true''"
| "formula_type FFalse = Some ''false''"
| "formula_type (And vs) = Some ''and''"
| "formula_type (Or vs) = Some ''or''"
| "formula_type (Not v) = Some ''not''"
| "formula_type (UsernameMatchOf p) = Some ''usernameMatchOf''"
| "formula_type (NameMatchOf p) = Some ''nameMatchOf''"
| "formula_type NameIsDefault = Some ''nameIsDefault''"
| "formula_type (RoleAssignedOf i) = Some ''roleAssignedOf''"
| "formula_type HasText = Some ''hasText''"
| "formula_type (TextMatchOf p) = Some ''textMatchOf''"
| "formula_type HasMentions = Some ''hasMentions''"
| "formula_type (MentionCountIs n) = Some ''mentionCountIs''"
| "formula_type (MentionCountMoreThanOrEq n) = Some ''mentionCountMoreThanOrEq''"
| "formula_type (MentionCountLessThan n) = Some ''mentionCountLessThan''"
| "formula_type IsReply = Some ''isReply''"
| "formula_type IsQuoted = Some ''isQuoted''"
| "formula_type HasFiles = Some ''hasFiles''"
| "formula_type (FileCountIs n) = Some ''fileCountIs''"
| "formula_type (FileCountMoreThanOrEq n) = Some ''fileCountMoreThanOrEq''"
| "formula_type (FileCountLessThan n) = Some ''fileCountLessThan''"
| "formula_type (FileTotalSizeMoreThanOrEq n) = Some ''fileTotalSizeMoreThanOrEq''"
| "formula_type (FileTotalSizeLessThan n) = Some ''fileTotalSizeLessThan''"
| "formula_type (HasFileSizeMoreThanOrEq n) = Some ''hasFileSizeMoreThanOrEq''"
| "formula_type (HasFileSizeLessThan n) = Some ''hasFileSizeLessThan''"
| "formula_type (HasFileMD5Is h) = Some ''hasFileMD5Is''"
| "formula_type HasBrowserInsafe = Some ''hasBrowserInsafe''"
| "formula_type HasPictures = Some ''hasPictures''"
| "formula_type (HasLikelyBlurhash h d) = Some ''hasLikelyBlurhash''"
| "formula_type HasHashtags = Some ''hasHashtags''"
| "formula_type (HashtagCountIs n) = Some ''hashtagCountIs''"
| "formula_type (HashtagCountMoreThanOrEq n) = Some ''hashtagCountMoreThanOrEq''"
| "formula_type (HashtagCountLessThan n) = Some ''hashtagCountLessThan''"
| "formula_type (HasHashtagMatchOf p) = Some ''hasHashtagMatchOf''"
| "formula_type Unset = None"
| "formula_type (Unrecognized t) = Some t"

text \<open>JavaScript truthiness of a nullable string: \<^verbatim>\<open>null\<close> and \<^verbatim>\<open>''\<close> are falsy.\<close>

fun truthy_string :: "string option \<Rightarrow> bool" where
  "truthy_string None = False"
| "truthy_string (Some t) = (t \<noteq> [])"

subsection \<open>Collaborators\<close>

text \<open>
  The services and constants the class imports, none of them defined in this file of the
  source: \<^verbatim>\<open>utilityService.isKeyWordIncluded\<close>, \<^verbatim>\<open>decode\<close> of the blurhash package (it
  returns the decoded components or throws), the constant \<^verbatim>\<open>FILE_TYPE_BROWSERSAFE\<close>,
  \<^verbatim>\<open>metaService.fetch\<close>, \<^verbatim>\<open>cacheService.findUserById\<close> and
  \<^verbatim>\<open>roleService.getUserRoles\<close>. Each call either returns or throws. With them comes
  what the JavaScript runtime gives the evaluator: \<open>call_stack\<close>, the number of nested
  calls of \<^verbatim>\<open>evalcond\<close> that the call stack holds beneath the first one.
\<close>

record MiMeta =
  prohibitedNotePattern :: formula

record services =
  isKeyWordIncluded :: "string \<Rightarrow> string list \<Rightarrow> error + bool"
  decode :: "string \<Rightarrow> nat \<Rightarrow> nat \<Rightarrow> error + int list"
  FILE_TYPE_BROWSERSAFE :: "string list"
  fetch :: "error + MiMeta"
  findUserById :: "string \<Rightarrow> error + MiUser"
  getUserRoles :: "string \<Rightarrow> error + MiRole list"
  call_stack :: nat

subsection \<open>Array helpers\<close>

text \<open>\<^verbatim>\<open>Array.prototype.every\<close> with a callback that may throw: stops at the first
  \<^verbatim>\<open>false\<close>, and at the first exception.\<close>

fun every_r :: "('a \<Rightarrow> error + bool) \<Rightarrow> 'a list \<Rightarrow> error + bool" where
  "every_r p [] = Inr True"
| "every_r p (x # xs) =
     (case p x of Inl e \<Rightarrow> Inl e | Inr b \<Rightarrow> if b then every_r p xs else Inr False)"

text \<open>\<^verbatim>\<open>Array.prototype.some\<close> with a callback that may throw.\<close>

fun some_r :: "('a \<Rightarrow> error + bool) \<Rightarrow> 'a list \<Rightarrow> error + bool" where
  "some_r p [] = Inr False"
| "some_r p (x # xs) =
     (case p x of Inl e \<Rightarrow> Inl e | Inr b \<Rightarrow> if b then Inr True else some_r p xs)"

lemma every_r_cong [fundef_cong]:
  "xs = ys \<Longrightarrow> (\<And>x. x \<in> set ys \<Longrightarrow> p x = q x) \<Longrightarrow> every_r p xs = every_r q ys"
  by (induction ys arbitrary: xs) (auto split: sum.splits)

lemma some_r_cong [fundef_cong]:
  "xs = ys \<Longrightarrow> (\<And>x. x \<in> set ys \<Longrightarrow> p x = q x) \<Longrightarrow> some_r p xs = some_r q ys"
  by (induction ys arbitrary: xs) (auto split: sum.splits)

text \<open>\<^verbatim>\<open>subject.files ?? []\<close>.\<close>

definition files_or_empty :: "InspectionSubject \<Rightarrow> MiDriveFile list" where
  "files_or_empty subject = (case files subject of None \<Rightarrow> [] | Some fs \<Rightarrow> fs)"

text \<open>\<^verbatim>\<open>subject.files ? subject.files.length : 0\<close>: an array is truthy, also when empty.\<close>

definition file_count :: "InspectionSubject \<Rightarrow> int" where
  "file_count subject = (case files subject of None \<Rightarrow> 0 | Some fs \<Rightarrow> int (length fs))"

text \<open>\<^verbatim>\<open>subject.files?.reduce((p, f) => p + f.size, 0) ?? 0\<close>.\<close>

definition file_total_size :: "InspectionSubject \<Rightarrow> int" where
  "file_total_size subject =
     (case files subject of None \<Rightarrow> 0 | Some fs \<Rightarrow> foldl (\<lambda>p f. p + size_f f) 0 fs)"

text \<open>
  \<^verbatim>\<open>decode(i, 5, 5).reduce((v, j, n) => v + Math.abs(j - k[n]), 0)\<close>. The accumulator is
  \<open>None\<close> once it is \<^verbatim>\<open>NaN\<close>: \<^verbatim>\<open>k[n]\<close> is \<^verbatim>\<open>undefined\<close> for an index past the end
  of \<open>k\<close>, the difference is then \<^verbatim>\<open>NaN\<close>, and \<^verbatim>\<open>NaN\<close> stays through every later sum.
\<close>

definition blurhash_step :: "int list \<Rightarrow> int option \<Rightarrow> nat \<times> int \<Rightarrow> int option" where
  "blurhash_step k v nj =
     (case v of None \<Rightarrow> None
      | Some a \<Rightarrow> if fst nj < length k then Some (a + \<bar>snd nj - k ! fst nj\<bar>) else None)"

definition blurhash_diff :: "int list \<Rightarrow> int list \<Rightarrow> int option" where
  "blurhash_diff d k = foldl (blurhash_step k) (Some 0) (enumerate 0 d)"

text \<open>\<^verbatim>\<open>... <= formula.diff\<close>: a comparison with \<^verbatim>\<open>NaN\<close> is false.\<close>

definition blurhash_within :: "int list \<Rightarrow> int list \<Rightarrow> int \<Rightarrow> bool" where
  "blurhash_within d k diff = (case blurhash_diff d k of None \<Rightarrow> False | Some t \<Rightarrow> t \<le> diff)"

text \<open>The callback of \<^verbatim>\<open>h.some\<close>, with its own \<^verbatim>\<open>try\<close>/\<^verbatim>\<open>catch\<close>.\<close>

definition blurhash_likely :: "services \<Rightarrow> int list \<Rightarrow> int \<Rightarrow> string \<Rightarrow> bool" where
  "blurhash_likely sv k diff i =
     (case decode sv i 5 5 of Inl e \<Rightarrow> False | Inr d \<Rightarrow> blurhash_within d k diff)"

subsection \<open>The evaluator\<close>

text \<open>
  The method recurses on the JavaScript call stack, which is finite: a call for which no
  room is left throws a \<^verbatim>\<open>RangeError\<close> at the place of the call. \<open>on_stack stack call\<close>
  is a call made where \<open>stack\<close> more nested activations of \<^verbatim>\<open>evalcond\<close> fit: with none
  left it throws, otherwise the callee runs with one less. The unit is what one level of
  nesting takes, the frames of \<^verbatim>\<open>every\<close>/\<^verbatim>\<open>some\<close> and of their callback included.
\<close>

definition stack_overflow :: error where
  "stack_overflow = Thrown ''RangeError: Maximum call stack size exceeded''"

definition on_stack :: "nat \<Rightarrow> (nat \<Rightarrow> error + 'a) \<Rightarrow> error + 'a" where
  "on_stack stack call = (case stack of 0 \<Rightarrow> Inl stack_overflow | Suc rest \<Rightarrow> call rest)"

text \<open>
  \<open>evalcond\<close> is the method; \<open>evalcond_try\<close> is the body of its \<^verbatim>\<open>try\<close> block, the
  \<^verbatim>\<open>switch\<close>. The recursive calls of the \<^verbatim>\<open>switch\<close> go to \<open>evalcond\<close>, as
  \<^verbatim>\<open>this.evalcond(...)\<close> does, and the \<^verbatim>\<open>catch\<close> of the calling activation also
  catches the \<^verbatim>\<open>RangeError\<close> of a call that no longer fits. The first argument is the
  room left beneath the activation.
\<close>

fun evalcond :: "nat \<Rightarrow> services \<Rightarrow> InspectionSubject \<Rightarrow> MiUser \<Rightarrow> MiRole list \<Rightarrow> formula \<Rightarrow> error + bool"
  and evalcond_try :: "nat \<Rightarrow> services \<Rightarrow> InspectionSubject \<Rightarrow> MiUser \<Rightarrow> MiRole list \<Rightarrow> formula \<Rightarrow> error + bool"
  where
  "evalcond stack sv subject user roles formula =
     (case evalcond_try stack sv subject user roles formula of
        Inl err \<Rightarrow> Inr False
      | Inr b \<Rightarrow> Inr b)"
| "evalcond_try stack sv subject user roles FTrue = Inr True"
| "evalcond_try stack sv subject user roles FFalse = Inr False"
| "evalcond_try stack sv subject user roles (And vs) =
     every_r (\<lambda>v. on_stack stack (\<lambda>rest. evalcond rest sv subject user roles v)) vs"
| "evalcond_try stack sv subject user roles (Or vs) =
     some_r (\<lambda>v. on_stack stack (\<lambda>rest. evalcond rest sv subject user roles v)) vs"
| "evalcond_try stack sv subject user roles (Not v) =
     (case on_stack stack (\<lambda>rest. evalcond rest sv subject user roles v) of
        Inl e \<Rightarrow> Inl e
      | Inr b \<Rightarrow> Inr (\<not> b))"
| "evalcond_try stack sv subject user roles (UsernameMatchOf pattern) =
     isKeyWordIncluded sv (username user) [pattern]"
| "evalcond_try stack sv subject user roles (NameMatchOf pattern) =
     isKeyWordIncluded sv (case name user of None \<Rightarrow> [] | Some n \<Rightarrow> n) [pattern]"
| "evalcond_try stack sv subject user roles NameIsDefault =
     Inr (if truthy_string (name user) then name user = Some (username user) else True)"
| "evalcond_try stack sv subject user roles (RoleAssignedOf roleId) =
     Inr (list_ex (\<lambda>r. role_id r = roleId) roles)"
| "evalcond_try stack sv subject user roles HasText = Inr (text_f subject \<noteq> None)"
| "evalcond_try stack sv subject user roles (TextMatchOf pattern) =
     isKeyWordIncluded sv (case text_f subject of None \<Rightarrow> [] | Some t \<Rightarrow> t) [pattern]"
| "evalcond_try stack sv subject user roles HasMentions =
     Inr (if reply subject \<noteq> None then True else int (length (mentions subject)) > 0)"
| "evalcond_try stack sv subject user roles (MentionCountIs val) =
     Inr (int (length (mentions subject)) = val)"
| "evalcond_try stack sv subject user roles (MentionCountMoreThanOrEq val) =
     Inr (int (length (mentions subject)) \<ge> val)"
| "evalcond_try stack sv subject user roles (MentionCountLessThan val) =
     Inr (int (length (mentions subject)) < val)"
| "evalcond_try stack sv subject user roles IsReply = Inr (reply subject \<noteq> None)"
| "evalcond_try stack sv subject user roles IsQuoted = Inr (renote subject \<noteq> None)"
| "evalcond_try stack sv subject user roles HasFiles =
     Inr (case files subject of None \<Rightarrow> False | Some fs \<Rightarrow> int (length fs) > 0)"
| "evalcond_try stack sv subject user roles (FileCountIs val) = Inr (file_count subject = val)"
| "evalcond_try stack sv subject user roles (FileCountMoreThanOrEq val) =
     Inr (file_count subject \<ge> val)"
| "evalcond_try stack sv subject user roles (FileCountLessThan val) = Inr (file_count subject < val)"
| "evalcond_try stack sv subject user roles (FileTotalSizeMoreThanOrEq sz) =
     Inr (file_total_size subject \<ge> sz)"
| "evalcond_try stack sv subject user roles (FileTotalSizeLessThan sz) =
     Inr (file_total_size subject < sz)"
| "evalcond_try stack sv subject user roles (HasFileSizeMoreThanOrEq sz) =
     Inr (case files subject of None \<Rightarrow> False | Some fs \<Rightarrow> list_ex (\<lambda>f. size_f f \<ge> sz) fs)"
| "evalcond_try stack sv subject user roles (HasFileSizeLessThan sz) =
     Inr (case files subject of None \<Rightarrow> True | Some fs \<Rightarrow> list_ex (\<lambda>f. size_f f < sz) fs)"
| "evalcond_try stack sv subject user roles (HasFileMD5Is hash) =
     Inr (case files subject of None \<Rightarrow> False | Some fs \<Rightarrow> list_ex (\<lambda>f. md5 f = hash) fs)"
| "evalcond_try stack sv subject user roles HasBrowserInsafe =
     Inr (case files subject of None \<Rightarrow> False
          | Some fs \<Rightarrow>
              list_ex (\<lambda>f. \<not> list_ex (\<lambda>t. type_f f = t) (FILE_TYPE_BROWSERSAFE sv)) fs)"
| "evalcond_try stack sv subject user roles HasPictures =
     Inr (case files subject of None \<Rightarrow> False
          | Some fs \<Rightarrow> list_ex (\<lambda>f. prefix ''image/'' (type_f f)) fs)"
| "evalcond_try stack sv subject user roles (HasLikelyBlurhash hash diff) =
     (case decode sv hash 5 5 of
        Inl e \<Rightarrow> Inr False
      | Inr k \<Rightarrow>
          let h = map (\<lambda>f. case blurhash f of None \<Rightarrow> [] | Some b \<Rightarrow> b)
                    (filter (\<lambda>f. blurhash f \<noteq> None) (files_or_empty subject))
          in Inr (list_ex (blurhash_likely sv k diff) h))"
| "evalcond_try stack sv subject user roles HasHashtags = Inr (int (length (hashtags subject)) > 0)"
| "evalcond_try stack sv subject user roles (HashtagCountIs val) =
     Inr (int (length (hashtags subject)) = val)"
| "evalcond_try stack sv subject user roles (HashtagCountMoreThanOrEq val) =
     Inr (int (length (hashtags subject)) \<ge> val)"
| "evalcond_try stack sv subject user roles (HashtagCountLessThan val) =
     Inr (int (length (hashtags subject)) < val)"
| "evalcond_try stack sv subject user roles (HasHashtagMatchOf val) =
     some_r (\<lambda>h. isKeyWordIncluded sv h [val]) (hashtags subject)"
| "evalcond_try stack sv subject user roles Unset = Inr False"
| "evalcond_try stack sv subject user roles (Unrecognized t) = Inr False"

subsection \<open>The gate\<close>

text \<open>
  \<open>isProhibitedNote\<close> awaits its collaborators one after the other. The model returns,
  with the result, the list of collaborator calls made, in the order they were made; a
  collaborator that throws ends the method with that exception. The method resumes after
  its last \<^verbatim>\<open>await\<close> and calls \<open>evalcond\<close> with the whole call stack beneath it.
\<close>

datatype call = CallFetch | CallFindUserById string | CallGetUserRoles string

definition isProhibitedNote :: "services \<Rightarrow> InspectionSubject \<Rightarrow> call list \<times> (error + bool)" where
  "isProhibitedNote sv subject =
     (case fetch sv of
        Inl e \<Rightarrow> ([CallFetch], Inl e)
      | Inr meta \<Rightarrow>
          let formula = prohibitedNotePattern meta in
          if truthy_string (formula_type formula) then
            (case findUserById sv (userId subject) of
               Inl e \<Rightarrow> ([CallFetch, CallFindUserById (userId subject)], Inl e)
             | Inr user \<Rightarrow>
                 (case getUserRoles sv (userId subject) of
                    Inl e \<Rightarrow>
                      ([CallFetch, CallFindUserById (userId subject),
                        CallGetUserRoles (userId subject)], Inl e)
                  | Inr roles \<Rightarrow>
                      ([CallFetch, CallFindUserById (userId subject),
                        CallGetUserRoles (userId subject)],
                       evalcond (call_stack sv) sv subject user roles formula)))
          else ([CallFetch], Inr False))"

subsection \<open>Concrete inputs\<close>

text \<open>
  A user, a subject, three files and a set of collaborators on which the theorems below
  are instantiated: the keyword matcher always throws, the decoder knows two hashes and
  throws on every other string, and only the user \<open>u1\<close> exists.
\<close>

definition ex_user :: MiUser where
  "ex_user = \<lparr>username = ''alice'', name = Some ''Alice''\<rparr>"

definition ex_subject :: InspectionSubject where
  "ex_subject =
     \<lparr>userId = ''u1'', text_f = Some ''hello'', reply = None, renote = None, files = None,
      mentions = [], hashtags = [''a'', ''b'']\<rparr>"

definition ex_files :: "MiDriveFile list" where
  "ex_files =
     [\<lparr>size_f = 600, md5 = ''m1'', type_f = ''image/png'', blurhash = Some ''broken''\<rparr>,
      \<lparr>size_f = 500, md5 = ''m2'', type_f = ''text/plain'', blurhash = None\<rparr>,
      \<lparr>size_f = 700, md5 = ''m3'', type_f = ''image/jpeg'', blurhash = Some ''near''\<rparr>]"

definition ex_decode :: "string \<Rightarrow> nat \<Rightarrow> nat \<Rightarrow> error + int list" where
  "ex_decode h x y =
     (if h = ''target'' then Inr (replicate (x * y * 4) 10)
      else if h = ''near'' then Inr (replicate (x * y * 4) 11)
      else Inl (Thrown ''invalid blurhash''))"

definition ex_services :: services where
  "ex_services =
     \<lparr>isKeyWordIncluded = (\<lambda>t ps. Inl (Thrown ''matcher failed'')),
      decode = ex_decode,
      FILE_TYPE_BROWSERSAFE = [''image/png'', ''image/jpeg''],
      fetch = Inr \<lparr>prohibitedNotePattern = Unset\<rparr>,
      findUserById = (\<lambda>i. if i = ''u1'' then Inr ex_user else Inl (Thrown ''no such user'')),
      getUserRoles = (\<lambda>i. Inr []),
      call_stack = 10000\<rparr>"

definition ex_subject_files :: InspectionSubject where
  "ex_subject_files = ex_subject\<lparr>files := Some ex_files\<rparr>"

definition ex_services_policy :: services where
  "ex_services_policy =
     ex_services\<lparr>fetch := Inr \<lparr>prohibitedNotePattern = Not (TextMatchOf ''spam'')\<rparr>\<rparr>"

text \<open>
  \<open>nesting f\<close> is the number of activations of \<open>evalcond\<close> that evaluating \<open>f\<close>
  can stack beneath the first one. \<open>not_chain n\<close> is \<open>true\<close> under \<open>n\<close> negations.
\<close>

fun nesting :: "formula \<Rightarrow> nat" where
  "nesting (And vs) = foldr (\<lambda>v m. max (Suc (nesting v)) m) vs 0"
| "nesting (Or vs) = foldr (\<lambda>v m. max (Suc (nesting v)) m) vs 0"
| "nesting (Not v) = Suc (nesting v)"
| "nesting f = 0"

primrec not_chain :: "nat \<Rightarrow> formula" where
  "not_chain 0 = FTrue"
| "not_chain (Suc n) = Not (not_chain n)"

section \<open>Properties\<close>

subsection \<open>Auxiliary facts\<close>

lemma evalcond_returns: "\<exists>b. evalcond stack sv subject user roles formula = Inr b"
  by (cases "evalcond_try stack sv subject user roles formula") auto

lemma evalcond_not:
  "evalcond stack sv subject user roles formula = Inr b \<Longrightarrow>
   evalcond (Suc stack) sv subject user roles (Not formula) = Inr (\<not> b)"
  by (simp add: on_stack_def)

text \<open>
  A formula that nests no deeper than the stack holds evaluates to the same value with
  any such stack: no call overflows.
\<close>

lemma nesting_child:
  "v \<in> set vs \<Longrightarrow> Suc (nesting v) \<le> foldr (\<lambda>v m. max (Suc (nesting v)) m) vs 0"
  by (induction vs) auto

lemma on_stack_fits:
  "k \<le> stack \<Longrightarrow> 0 < k \<Longrightarrow> on_stack stack call = call (stack - 1)"
  by (cases stack) (simp_all add: on_stack_def)

lemma evalcond_fits:
  "nesting f \<le> n \<Longrightarrow> nesting f \<le> m \<Longrightarrow>
   evalcond n sv subject user roles f = evalcond m sv subject user roles f"
proof (induction f arbitrary: n m)
  case (And vs)
  have "on_stack n (\<lambda>rest. evalcond rest sv subject user roles v)
        = on_stack m (\<lambda>rest. evalcond rest sv subject user roles v)" if v: "v \<in> set vs" for v
  proof -
    have "Suc (nesting v) \<le> n" "Suc (nesting v) \<le> m"
      using nesting_child [OF v] And.prems by simp_all
    then have "nesting v \<le> n - 1" "nesting v \<le> m - 1" "0 < n" "0 < m" by simp_all
    then show ?thesis
      using And.IH [OF v, of "n - 1" "m - 1"]
      by (simp add: on_stack_fits [of 1])
  qed
  then have "every_r (\<lambda>v. on_stack n (\<lambda>rest. evalcond rest sv subject user roles v)) vs
             = every_r (\<lambda>v. on_stack m (\<lambda>rest. evalcond rest sv subject user roles v)) vs"
    by (intro every_r_cong) simp_all
  then show ?case by simp
next
  case (Or vs)
  have "on_stack n (\<lambda>rest. evalcond rest sv subject user roles v)
        = on_stack m (\<lambda>rest. evalcond rest sv subject user roles v)" if v: "v \<in> set vs" for v
  proof -
    have "Suc (nesting v) \<le> n" "Suc (nesting v) \<le> m"
      using nesting_child [OF v] Or.prems by simp_all
    then have "nesting v \<le> n - 1" "nesting v \<le> m - 1" "0 < n" "0 < m" by simp_all
    then show ?thesis
      using Or.IH [OF v, of "n - 1" "m - 1"]
      by (simp add: on_stack_fits [of 1])
  qed
  then have "some_r (\<lambda>v. on_stack n (\<lambda>rest. evalcond rest sv subject user roles v)) vs
             = some_r (\<lambda>v. on_stack m (\<lambda>rest. evalcond rest sv subject user roles v)) vs"
    by (intro some_r_cong) simp_all
  then show ?case by simp
next
  case (Not v)
  then have "nesting v \<le> n - 1" "nesting v \<le> m - 1" "0 < n" "0 < m" by simp_all
  then show ?case
    using Not.IH [of "n - 1" "m - 1"] by (simp add: on_stack_fits [of 1])
qed simp_all

text \<open>
  A chain of negations longer than the stack holds: the innermost call that still fits
  catches the \<^verbatim>\<open>RangeError\<close> of the next one and returns \<open>false\<close>, whatever lies
  below, and the value at the top is fixed by the depth of the stack alone.
\<close>

lemma not_chain_overflow:
  "stack < n \<Longrightarrow> evalcond stack sv subject user roles (not_chain n) = Inr (odd stack)"
proof (induction stack arbitrary: n)
  case 0
  then obtain n' where "n = Suc n'" by (cases n) auto
  then show ?case by (simp add: on_stack_def)
next
  case (Suc stack)
  then obtain n' where n: "n = Suc n'" and "stack < n'" by (cases n) auto
  then have "evalcond stack sv subject user roles (not_chain n') = Inr (odd stack)"
    by (intro Suc.IH)
  then show ?case using n by (simp add: on_stack_def)
qed

text \<open>
  The \<^verbatim>\<open>reduce\<close> over the decoded components is the sum of the absolute differences
  as long as no index runs past the end of \<open>k\<close>.
\<close>

lemma blurhash_fold:
  "m + length d \<le> length k \<Longrightarrow>
   foldl (blurhash_step k) (Some a) (enumerate m d) = Some (a + (\<Sum>n<length d. \<bar>d ! n - k ! (m + n)\<bar>))"
proof (induction d arbitrary: a m)
  case Nil
  then show ?case by simp
next
  case (Cons j d)
  have "foldl (blurhash_step k) (Some a) (enumerate m (j # d)) =
        foldl (blurhash_step k) (Some (a + \<bar>j - k ! m\<bar>)) (enumerate (Suc m) d)"
    using Cons.prems by (simp add: blurhash_step_def)
  also have "\<dots> = Some (a + \<bar>j - k ! m\<bar> + (\<Sum>n<length d. \<bar>d ! n - k ! (Suc m + n)\<bar>))"
    using Cons.prems by (intro Cons.IH) simp
  finally show ?case
    by (simp add: sum.lessThan_Suc_shift del: sum.lessThan_Suc)
qed

lemma blurhash_within_eq:
  "length d \<le> length k \<Longrightarrow> blurhash_within d k diff = ((\<Sum>n<length d. \<bar>d ! n - k ! n\<bar>) \<le> diff)"
  using blurhash_fold [of 0 d k 0] by (simp add: blurhash_within_def blurhash_diff_def)

text \<open>
  The scenarios of the specification, run on the model: two files of 600 and 500 bytes
  against a total-size threshold of 1000; a role set without the role asked for; a
  subject that is no reply and carries two hashtags, against a threshold of three.
\<close>

lemma scenario_total_size:
  "evalcond (Suc stack) sv
     (ex_subject\<lparr>files := Some [\<lparr>size_f = 600, md5 = ''m1'', type_f = ''image/png'', blurhash = None\<rparr>,
                                  \<lparr>size_f = 500, md5 = ''m2'', type_f = ''image/png'', blurhash = None\<rparr>]\<rparr>)
     user roles (And [HasFiles, FileTotalSizeMoreThanOrEq 1000]) = Inr True"
  by (simp add: file_total_size_def on_stack_def)

lemma scenario_role:
  "evalcond stack sv subject user [\<lparr>role_id = ''user''\<rparr>] (RoleAssignedOf ''admin'') = Inr False"
  by simp

lemma scenario_hashtags:
  "evalcond (Suc stack) sv ex_subject user roles (Or [IsReply, HashtagCountMoreThanOrEq 3])
     = Inr False"
  by (simp add: ex_subject_def on_stack_def)

subsection \<open>The failure boundary\<close>

text \<open>
  Claim C1, as the specification words it: a failure raised in some node makes the whole
  top-level call return \<open>false\<close>, so that \<open>not(f)\<close> and \<open>or([f, true])\<close> are \<open>false\<close>
  when \<open>f\<close> raises. The code does otherwise: the matcher throws in \<open>textMatchOf\<close>, and
  both formulas evaluate to \<open>true\<close>.
\<close>

theorem evalcond_failure_not_coarse_counterexample:
  "evalcond_try 100 ex_services ex_subject ex_user [] (TextMatchOf ''spam'') = Inl (Thrown ''matcher failed'')
   \<and> evalcond 100 ex_services ex_subject ex_user [] (Not (TextMatchOf ''spam'')) = Inr True
   \<and> evalcond 100 ex_services ex_subject ex_user [] (Or [TextMatchOf ''spam'', FTrue]) = Inr True"
  by (simp add: ex_services_def on_stack_def)

text \<open>
  Claim C1, amended: the \<^verbatim>\<open>try\<close>/\<^verbatim>\<open>catch\<close> is in \<open>evalcond\<close> itself, so every recursive
  call has its own boundary. A node whose \<^verbatim>\<open>switch\<close> raises evaluates to \<open>false\<close> at that
  node, and the enclosing node combines that \<open>false\<close> like any other child result: for
  every \<open>f\<close> whose evaluation raises, \<open>not(f)\<close> evaluates to \<open>true\<close> and \<open>or([f, true])\<close>
  evaluates to \<open>true\<close>. Here \<open>f\<close> raises where it is evaluated, one call beneath the
  node that encloses it.
\<close>

theorem evalcond_failure_per_call:
  assumes "evalcond_try stack sv subject user roles f = Inl e"
  shows "evalcond stack sv subject user roles f = Inr False
         \<and> evalcond (Suc stack) sv subject user roles (Not f) = Inr True
         \<and> evalcond (Suc stack) sv subject user roles (Or [f, FTrue]) = Inr True"
  using assms by (simp add: on_stack_def)

theorem evalcond_failure_per_call_witness:
  "evalcond_try 99 ex_services ex_subject ex_user [] (UsernameMatchOf ''bot'') = Inl (Thrown ''matcher failed'')
   \<and> evalcond 99 ex_services ex_subject ex_user [] (UsernameMatchOf ''bot'') = Inr False
   \<and> evalcond (Suc 99) ex_services ex_subject ex_user [] (Not (UsernameMatchOf ''bot'')) = Inr True
   \<and> evalcond (Suc 99) ex_services ex_subject ex_user [] (Or [UsernameMatchOf ''bot'', FTrue]) = Inr True"
proof -
  have h: "evalcond_try 99 ex_services ex_subject ex_user [] (UsernameMatchOf ''bot'')
           = Inl (Thrown ''matcher failed'')"
    by (simp add: ex_services_def)
  from evalcond_failure_per_call [OF h] h show ?thesis by blast
qed

subsection \<open>Negation\<close>




subsection \<open>The gate's fast path\<close>

text \<open>
  Claim C3: when the fetched configuration carries no formula (the \<^verbatim>\<open>type\<close> of
  \<^verbatim>\<open>prohibitedNotePattern\<close> is falsy, as it is for the unset node), \<open>isProhibitedNote\<close>
  returns \<open>false\<close> and the only collaborator called is the configuration fetch: neither
  the user lookup nor the role lookup is invoked.
\<close>

theorem isProhibitedNote_fast_path:
  assumes "fetch sv = Inr meta"
    and "\<not> truthy_string (formula_type (prohibitedNotePattern meta))"
  shows "isProhibitedNote sv subject = ([CallFetch], Inr False)"
  using assms by (simp add: isProhibitedNote_def)

theorem isProhibitedNote_fast_path_witness:
  "fetch ex_services = Inr \<lparr>prohibitedNotePattern = Unset\<rparr>
   \<and> \<not> truthy_string (formula_type (prohibitedNotePattern \<lparr>prohibitedNotePattern = Unset\<rparr>))
   \<and> isProhibitedNote ex_services ex_subject = ([CallFetch], Inr False)"
proof -
  have f: "fetch ex_services = Inr \<lparr>prohibitedNotePattern = Unset\<rparr>"
    by (simp add: ex_services_def)
  have t: "\<not> truthy_string (formula_type (prohibitedNotePattern \<lparr>prohibitedNotePattern = Unset\<rparr>))"
    by simp
  from isProhibitedNote_fast_path [OF f t, of ex_subject] f t show ?thesis by blast
qed

subsection \<open>Defaults of the file-size predicates\<close>

text \<open>
  Claim C4, as the specification words it: on every subject with no files,
  \<open>hasFileSizeLessThan\<close> returns \<open>true\<close>. A subject whose file list is present and
  empty has no files, and there the predicate returns \<open>false\<close>.
\<close>

theorem hasFileSizeLessThan_no_files_counterexample:
  "files (ex_subject\<lparr>files := Some []\<rparr>) = Some []
   \<and> evalcond 100 ex_services (ex_subject\<lparr>files := Some []\<rparr>) ex_user [] (HasFileSizeLessThan 1000) = Inr False"
  by simp

text \<open>
  Claim C4, amended: for every subject whose file list is absent (\<^verbatim>\<open>null\<close>) and every
  threshold, \<open>hasFileSizeLessThan\<close> returns \<open>true\<close>; for every subject with no files
  (the list absent or empty) and every threshold, \<open>hasFileSizeMoreThanOrEq\<close> returns
  \<open>false\<close>.
\<close>

theorem hasFileSize_defaults:
  "(files subject = None \<longrightarrow>
      evalcond stack sv subject user roles (HasFileSizeLessThan threshold) = Inr True)
   \<and> (files_or_empty subject = [] \<longrightarrow>
      evalcond stack sv subject user roles (HasFileSizeMoreThanOrEq threshold) = Inr False)"
  by (auto simp: files_or_empty_def split: option.splits)

theorem hasFileSize_defaults_witness:
  "files ex_subject = None \<and> files_or_empty ex_subject = []
   \<and> evalcond 100 ex_services ex_subject ex_user [] (HasFileSizeLessThan 1000) = Inr True
   \<and> evalcond 100 ex_services ex_subject ex_user [] (HasFileSizeMoreThanOrEq 1000) = Inr False"
proof -
  have n: "files ex_subject = None" by (simp add: ex_subject_def)
  have e: "files_or_empty ex_subject = []" by (simp add: ex_subject_def files_or_empty_def)
  from hasFileSize_defaults [of ex_subject 100 ex_services ex_user "[]" 1000] n e
  show ?thesis by blast
qed

text \<open>
  Claim C9: the \<open>true\<close> default of \<open>hasFileSizeLessThan\<close> is taken only when the
  file list is absent: for every subject whose file list is present and empty, and every
  threshold, the predicate returns \<open>false\<close>.
\<close>

theorem hasFileSizeLessThan_empty_list:
  assumes "files subject = Some []"
  shows "evalcond stack sv subject user roles (HasFileSizeLessThan threshold) = Inr False"
  using assms by simp

theorem hasFileSizeLessThan_empty_list_witness:
  "files (ex_subject_files\<lparr>files := Some []\<rparr>) = Some []
   \<and> evalcond 100 ex_services (ex_subject_files\<lparr>files := Some []\<rparr>) ex_user [] (HasFileSizeLessThan 5) = Inr False"
proof -
  have h: "files (ex_subject_files\<lparr>files := Some []\<rparr>) = Some []" by simp
  from hasFileSizeLessThan_empty_list [OF h] h show ?thesis by blast
qed

subsection \<open>Empty child lists\<close>

text \<open>
  Claim C5: for every subject, user and role set, \<open>and([])\<close> evaluates to \<open>true\<close> and
  \<open>or([])\<close> evaluates to \<open>false\<close>.
\<close>

theorem evalcond_empty_lists:
  "evalcond stack sv subject user roles (And []) = Inr True
   \<and> evalcond stack sv subject user roles (Or []) = Inr False"
  by simp

theorem evalcond_empty_lists_witness:
  "evalcond 100 ex_services ex_subject ex_user [] (And []) = Inr True
   \<and> evalcond 100 ex_services ex_subject ex_user [] (Or []) = Inr False"
  by (rule evalcond_empty_lists)

subsection \<open>Unrecognized kinds\<close>

text \<open>
  Claim C6: for every subject, user and role set, a node whose kind is none of the
  recognized kinds evaluates to \<open>false\<close>, and nothing is raised on the way: the
  \<^verbatim>\<open>switch\<close> itself returns \<open>false\<close>, the \<^verbatim>\<open>catch\<close> is not involved.
\<close>

theorem evalcond_unrecognized:
  assumes "t \<notin> set recognized_kinds"
  shows "evalcond_try stack sv subject user roles (Unrecognized t) = Inr False
         \<and> evalcond stack sv subject user roles (Unrecognized t) = Inr False"
  by simp

theorem evalcond_unrecognized_witness:
  "''hasPoll'' \<notin> set recognized_kinds
   \<and> evalcond_try 100 ex_services ex_subject ex_user [] (Unrecognized ''hasPoll'') = Inr False
   \<and> evalcond 100 ex_services ex_subject ex_user [] (Unrecognized ''hasPoll'') = Inr False"
proof -
  have h: "''hasPoll'' \<notin> set recognized_kinds" by (simp add: recognized_kinds_def)
  from evalcond_unrecognized [OF h] h show ?thesis by blast
qed

subsection \<open>The perceptual-hash predicate\<close>

text \<open>
  Claim C7: with a decoder that returns a grid of a fixed number of components,
  \<open>hasLikelyBlurhash\<close> returns \<open>true\<close> iff some attached file has a perceptual hash
  that decodes and whose components differ from those of the decoded target hash by at
  most the threshold, summed in absolute value. When the target hash does not decode the
  predicate is \<open>false\<close>; a file whose hash does not decode contributes \<open>false\<close> and the
  other files are still examined.
\<close>

theorem hasLikelyBlurhash_spec:
  assumes grid: "\<forall>h xs. decode sv h 5 5 = Inr xs \<longrightarrow> length xs = n"
  shows "evalcond stack sv subject user roles (HasLikelyBlurhash hash diff) =
         Inr (case decode sv hash 5 5 of
                Inl e \<Rightarrow> False
              | Inr k \<Rightarrow>
                  (\<exists>f \<in> set (files_or_empty subject). \<exists>b d.
                      blurhash f = Some b \<and> decode sv b 5 5 = Inr d
                      \<and> (\<Sum>i<length d. \<bar>d ! i - k ! i\<bar>) \<le> diff))"
proof (cases "decode sv hash 5 5")
  case (Inl e)
  then show ?thesis by simp
next
  case (Inr k)
  have lk: "length k = n" using grid Inr by blast
  have likely: "blurhash_likely sv k diff b =
      (\<exists>d. decode sv b 5 5 = Inr d \<and> (\<Sum>i<length d. \<bar>d ! i - k ! i\<bar>) \<le> diff)" for b
  proof (cases "decode sv b 5 5")
    case (Inl e)
    then show ?thesis by (simp add: blurhash_likely_def)
  next
    case (Inr d)
    then have "length d \<le> length k" using grid lk by auto
    then show ?thesis using Inr by (simp add: blurhash_likely_def blurhash_within_eq)
  qed
  show ?thesis
    using Inr by (fastforce simp: likely list_ex_iff)
qed

theorem hasLikelyBlurhash_spec_witness:
  "evalcond 100 ex_services ex_subject_files ex_user [] (HasLikelyBlurhash ''target'' 100) = Inr True
   \<and> evalcond 100 ex_services ex_subject_files ex_user [] (HasLikelyBlurhash ''broken'' 100) = Inr False"
proof -
  have grid: "\<forall>h xs. decode ex_services h 5 5 = Inr xs \<longrightarrow> length xs = 100"
    by (simp add: ex_services_def ex_decode_def)
  have t: "decode ex_services ''target'' 5 5 = Inr (replicate 100 10)"
    and n: "decode ex_services ''near'' 5 5 = Inr (replicate 100 11)"
    and b: "decode ex_services ''broken'' 5 5 = Inl (Thrown ''invalid blurhash'')"
    by (simp_all add: ex_services_def ex_decode_def)
  have f: "\<lparr>size_f = 700, md5 = ''m3'', type_f = ''image/jpeg'', blurhash = Some ''near''\<rparr>
             \<in> set (files_or_empty ex_subject_files)"
    by (simp add: files_or_empty_def ex_subject_files_def ex_files_def)
  have s: "(\<Sum>i<length (replicate 100 (11::int)). \<bar>replicate 100 11 ! i - replicate 100 (10::int) ! i\<bar>) \<le> 100"
    by simp
  have "evalcond 100 ex_services ex_subject_files ex_user [] (HasLikelyBlurhash ''target'' 100) = Inr True"
    unfolding hasLikelyBlurhash_spec [OF grid] t
    using f n s by (auto intro!: bexI [OF _ f])
  moreover have "evalcond 100 ex_services ex_subject_files ex_user [] (HasLikelyBlurhash ''broken'' 100) = Inr False"
    unfolding hasLikelyBlurhash_spec [OF grid] b by simp
  ultimately show ?thesis by blast
qed

subsection \<open>Totality\<close>

text \<open>
  Claim C8: for every subject, user, role set and formula, whatever the collaborators of
  the leaf predicates do, \<open>evalcond\<close> returns a boolean and raises nothing; an exception
  that a caller of \<open>isProhibitedNote\<close> observes is one that the configuration fetch, the
  user lookup or the role lookup raised.
\<close>

theorem evalcond_total:
  "(\<exists>b. evalcond stack sv subject user roles f = Inr b)
   \<and> (\<forall>e. snd (isProhibitedNote sv subject) = Inl e \<longrightarrow>
          fetch sv = Inl e \<or> findUserById sv (userId subject) = Inl e
          \<or> getUserRoles sv (userId subject) = Inl e)"
proof (intro conjI allI impI)
  show "\<exists>b. evalcond stack sv subject user roles f = Inr b"
    by (rule evalcond_returns)
next
  fix e
  assume a: "snd (isProhibitedNote sv subject) = Inl e"
  show "fetch sv = Inl e \<or> findUserById sv (userId subject) = Inl e
        \<or> getUserRoles sv (userId subject) = Inl e"
  proof (cases "fetch sv")
    case (Inl e')
    with a show ?thesis by (simp add: isProhibitedNote_def)
  next
    case meta: (Inr meta)
    show ?thesis
    proof (cases "findUserById sv (userId subject)")
      case (Inl e')
      with a meta show ?thesis
        by (simp add: isProhibitedNote_def Let_def split: if_splits)
    next
      case user: (Inr u)
      show ?thesis
      proof (cases "getUserRoles sv (userId subject)")
        case (Inl e')
        with a meta user show ?thesis
          by (simp add: isProhibitedNote_def Let_def split: if_splits)
      next
        case (Inr rs)
        obtain b where "evalcond (call_stack sv) sv subject u rs (prohibitedNotePattern meta) = Inr b"
          using evalcond_returns by blast
        with a meta user Inr show ?thesis
          by (simp add: isProhibitedNote_def Let_def split: if_splits)
      qed
    qed
  qed
qed

theorem evalcond_total_witness:
  "isProhibitedNote ex_services_policy ex_subject
     = ([CallFetch, CallFindUserById ''u1'', CallGetUserRoles ''u1''], Inr True)
   \<and> snd (isProhibitedNote ex_services_policy (ex_subject\<lparr>userId := ''u2''\<rparr>))
     = Inl (Thrown ''no such user'')
   \<and> findUserById ex_services_policy ''u2'' = Inl (Thrown ''no such user'')"
  using evalcond_total [of 100 ex_services_policy "ex_subject\<lparr>userId := ''u2''\<rparr>" ex_user "[]" FTrue]
  by (simp add: isProhibitedNote_def ex_services_policy_def ex_services_def ex_subject_def
      on_stack_def)

subsection \<open>The default display name\<close>

text \<open>
  Claim C10: for every user whose display name is the empty string, \<open>nameIsDefault\<close>
  returns \<open>true\<close>, whatever the handle is.
\<close>

theorem nameIsDefault_empty_name:
  assumes "name user = Some []"
  shows "evalcond stack sv subject user roles NameIsDefault = Inr True"
  using assms by simp

theorem nameIsDefault_empty_name_witness:
  "name (ex_user\<lparr>name := Some []\<rparr>) = Some []
   \<and> username (ex_user\<lparr>name := Some []\<rparr>) = ''alice''
   \<and> evalcond 100 ex_services ex_subject (ex_user\<lparr>name := Some []\<rparr>) [] NameIsDefault = Inr True"
proof -
  have h: "name (ex_user\<lparr>name := Some []\<rparr>) = Some []" by simp
  have u: "username (ex_user\<lparr>name := Some []\<rparr>) = ''alice''" by (simp add: ex_user_def)
  from nameIsDefault_empty_name [OF h] h u show ?thesis by blast
qed

end
